theory Spec2Isabelle
  imports Main "HOL-Library.Char_ord" "HOL-Library.List_Lexorder" "HOL-Library.Sublist"
begin

section \<open>The platform: what \<^verbatim>\<open>show.py\<close> asks of the operating system and the libraries\<close>

text \<open>
  \<^verbatim>\<open>show.py\<close> reads the process environment, asks the filesystem three questions
  (\<^verbatim>\<open>os.path.realpath\<close>, \<^verbatim>\<open>os.path.exists\<close>, \<^verbatim>\<open>os.path.isdir\<close>) and uses three library
  functions on strings (\<^verbatim>\<open>str.lower\<close>, the normalisation done by \<^verbatim>\<open>str(Path(p))\<close>, and
  the string escaping of \<^verbatim>\<open>json.dumps\<close>).  None of these is code of the repository, so they
  are the fields of a record that every function of the model takes as its first argument.
  One value of the record is one snapshot of the machine during one invocation.

  A \<^verbatim>\<open>pathlib.Path\<close> object is represented by its \<^verbatim>\<open>str\<close> form: \<open>Path os p\<close> is
  \<^verbatim>\<open>str(Path(p))\<close>, and \<^verbatim>\<open>realpath\<close>, \<^verbatim>\<open>exists\<close> and \<^verbatim>\<open>isdir\<close> receive that string,
  as \<^verbatim>\<open>os.fspath\<close> hands it to them.
\<close>

record platform =
  environ_PATH :: "string option"      \<comment> \<open>\<^verbatim>\<open>os.environ\<close> at the key \<^verbatim>\<open>"PATH"\<close>\<close>
  pathsep :: char                      \<comment> \<open>\<^verbatim>\<open>os.pathsep\<close>: \<^verbatim>\<open>:\<close> or \<^verbatim>\<open>;\<close>\<close>
  realpath :: "string \<Rightarrow> string"
  exists :: "string \<Rightarrow> bool"
  isdir :: "string \<Rightarrow> bool"
  lower :: "string \<Rightarrow> string"         \<comment> \<open>\<^verbatim>\<open>str.lower\<close>\<close>
  Path :: "string \<Rightarrow> string"          \<comment> \<open>\<^verbatim>\<open>str(Path(p))\<close>\<close>
  json_str :: "string \<Rightarrow> string"      \<comment> \<open>a string as \<^verbatim>\<open>json.dumps\<close> writes it, quotes included\<close>

section \<open>Strings and integers of the Python runtime\<close>

text \<open>\<^verbatim>\<open>s.split(sep)\<close> for a separator of one character: never an empty list.\<close>

fun split :: "char \<Rightarrow> string \<Rightarrow> string list" where
  "split sep [] = [[]]"
| "split sep (c # cs) =
     (if c = sep then [] # split sep cs
      else (case split sep cs of [] \<Rightarrow> [[c]] | w # ws \<Rightarrow> (c # w) # ws))"

text \<open>\<^verbatim>\<open>sep.join(items)\<close>.\<close>

fun join :: "string \<Rightarrow> string list \<Rightarrow> string" where
  "join sep [] = []"
| "join sep [x] = x"
| "join sep (x # y # ys) = x @ sep @ join sep (y # ys)"

text \<open>\<^verbatim>\<open>needle in hay\<close> on strings: \<open>needle\<close> occurs in \<open>hay\<close> as a contiguous block.\<close>

fun str_in :: "string \<Rightarrow> string \<Rightarrow> bool" where
  "str_in needle [] = (needle = [])"
| "str_in needle (c # cs) = (if prefix needle (c # cs) then True else str_in needle cs)"

text \<open>\<^verbatim>\<open>str(n)\<close> for an integer: decimal digits, a minus sign for a negative number.\<close>

definition digit :: "nat \<Rightarrow> char" where
  "digit d = char_of (48 + d)"

fun str_nat :: "nat \<Rightarrow> string" where
  "str_nat n = (if n < 10 then [digit n] else str_nat (n div 10) @ [digit (n mod 10)])"

declare str_nat.simps [simp del]

definition str_int :: "int \<Rightarrow> string" where
  "str_int k = (if k < 0 then CHR ''-'' # str_nat (nat (- k)) else str_nat (nat k))"

text \<open>\<^verbatim>\<open>s.rjust(n)\<close>: spaces on the left up to width \<open>n\<close>, nothing when \<open>s\<close> is as long.\<close>

definition rjust :: "nat \<Rightarrow> string \<Rightarrow> string" where
  "rjust n s = replicate (n - length s) CHR '' '' @ s"

text \<open>\<^verbatim>\<open>Counter(xs)[x]\<close>: how often \<open>x\<close> occurs in \<open>xs\<close>, zero for a missing key.\<close>

definition Counter :: "'a list \<Rightarrow> 'a \<Rightarrow> int" where
  "Counter xs x = int (count_list xs x)"

section \<open>\<^verbatim>\<open>PathVar\<close> and \<^verbatim>\<open>Row\<close>\<close>

datatype exception = KeyError string

text \<open>
  \<^verbatim>\<open>PathVar\<close> is a dictionary from line numbers to paths, filled in the order of the
  entries; \<^verbatim>\<open>values()\<close> walks it in that order, so it is an association list here.
\<close>

type_synonym PathVar = "(int \<times> string) list"

definition populate :: "platform \<Rightarrow> exception + PathVar" where
  "populate os =
     (case environ_PATH os of
        None \<Rightarrow> Inl (KeyError ''PATH'')
      | Some s \<Rightarrow>
          (let paths = split (pathsep os) s
           in Inr [(int n + 1, Path os p). (n, p) \<leftarrow> enumerate 0 paths]))"

definition max_digits :: "PathVar \<Rightarrow> nat" where
  "max_digits path_var =
     (case map fst path_var of
        [] \<Rightarrow> 0
      | k # ks \<Rightarrow> length (str_int (fold max ks k)))"

record Row =
  i :: int
  path :: string
  count :: int

text \<open>
  The property \<^verbatim>\<open>Row.error\<close> returns an exception class or \<^verbatim>\<open>None\<close>; \<^verbatim>\<open>get_postfix\<close>
  compares that value with a class and with a freshly built exception instance.  A class
  is never equal to an instance, whatever the instance.
\<close>

datatype exc_class = FileNotFoundError | NotADirectoryError

datatype pyobj = Class exc_class | Instance exc_class | PyNone

definition error :: "platform \<Rightarrow> Row \<Rightarrow> pyobj" where
  "error os row =
     (if \<not> exists os (path row) then Class FileNotFoundError
      else if \<not> isdir os (path row) then Class NotADirectoryError
      else PyNone)"

definition has_error :: "platform \<Rightarrow> Row \<Rightarrow> bool" where
  "has_error os row = (error os row \<noteq> PyNone)"

section \<open>The row builder\<close>

definition make_rows :: "platform \<Rightarrow> string list \<Rightarrow> Row list" where
  "make_rows os paths =
     (let counter = Counter (map (realpath os) paths)
      in [\<lparr>i = int n, path = Path os p, count = counter (realpath os p)\<rparr>.
            (n, p) \<leftarrow> enumerate 0 paths])"

definition to_rows :: "platform \<Rightarrow> PathVar \<Rightarrow> Row list" where
  "to_rows os path_var = make_rows os (map snd path_var)"

section \<open>The pipeline\<close>

text \<open>
  \<^verbatim>\<open>unseen_before\<close> filters with a set that grows while the comprehension runs: an
  element already in \<open>seen\<close> is skipped, any other is added to \<open>seen\<close> and kept.
\<close>

fun unseen_loop :: "'a set \<Rightarrow> 'a list \<Rightarrow> 'a list" where
  "unseen_loop seen [] = []"
| "unseen_loop seen (x # xs) =
     (if x \<in> seen then unseen_loop seen xs else x # unseen_loop (insert x seen) xs)"

definition unseen_before :: "'a list \<Rightarrow> 'a list" where
  "unseen_before xs = unseen_loop {} xs"

definition no_duplicates :: "platform \<Rightarrow> Row list \<Rightarrow> Row list" where
  "no_duplicates os rows =
     (let paths = [lower os (realpath os (path r)). r \<leftarrow> rows]
      in make_rows os (unseen_before paths))"

text \<open>
  \<^verbatim>\<open>modify_rows\<close> rebinds \<^verbatim>\<open>rows\<close> in seven \<^verbatim>\<open>if\<close> statements, one after the other.
  \<^verbatim>\<open>sorted\<close> is stable and compares the keys as strings, character by character; an
  empty \<^verbatim>\<open>includes\<close> or \<^verbatim>\<open>excludes\<close> is false and leaves the rows alone.
\<close>

definition modify_rows ::
  "platform \<Rightarrow> Row list \<Rightarrow> bool \<Rightarrow> bool \<Rightarrow> bool \<Rightarrow> bool \<Rightarrow> bool \<Rightarrow> string \<Rightarrow> string \<Rightarrow> Row list"
where
  "modify_rows os rows0 sort_flag duplicates purge_duplicates invalid purge_invalid
       includes excludes =
     (let rows1 = (if sort_flag then sort_key (\<lambda>r. realpath os (path r)) rows0 else rows0);
          rows2 = (if duplicates then [row \<leftarrow> rows1. count row > 1] else rows1);
          rows3 = (if purge_duplicates then no_duplicates os rows2 else rows2);
          rows4 = (if invalid then [row \<leftarrow> rows3. has_error os row] else rows3);
          rows5 = (if purge_invalid then [row \<leftarrow> rows4. \<not> has_error os row] else rows4);
          rows6 = (if includes \<noteq> []
                   then [row \<leftarrow> rows5.
                           str_in (lower os includes) (lower os (realpath os (path row)))]
                   else rows5);
          rows7 = (if excludes \<noteq> []
                   then [row \<leftarrow> rows6.
                           \<not> str_in (lower os excludes) (lower os (realpath os (path row)))]
                   else rows6)
      in rows7)"

section \<open>The presenter\<close>

text \<open>The three \<^verbatim>\<open>colorama.Fore\<close> escape sequences that \<^verbatim>\<open>get_color\<close> returns.\<close>

definition Fore_RED :: string where "Fore_RED = CHR 0x1B # ''[31m''"
definition Fore_GREEN :: string where "Fore_GREEN = CHR 0x1B # ''[32m''"
definition Fore_YELLOW :: string where "Fore_YELLOW = CHR 0x1B # ''[33m''"

definition get_color :: "platform \<Rightarrow> Row \<Rightarrow> string" where
  "get_color os row =
     (if has_error os row then Fore_RED
      else if count row > 1 then Fore_YELLOW
      else Fore_GREEN)"

definition get_postfix :: "platform \<Rightarrow> Row \<Rightarrow> string" where
  "get_postfix os row =
     (let items0 =
            (if error os row = Class FileNotFoundError then [''directory does not exist'']
             else if error os row = Instance NotADirectoryError then [''not a directory'']
             else []);
          n = count row;
          items = (if n > 1 then items0 @ [''duplicates: '' @ str_int n] else items0)
      in if items \<noteq> [] then ''('' @ join '', '' items @ '')'' else [])"

text \<open>
  \<^verbatim>\<open>print(a, b, c)\<close> writes its arguments with one space between them; a line of output
  is the string written by one call of \<^verbatim>\<open>print\<close>.
\<close>

definition print_row :: "platform \<Rightarrow> Row \<Rightarrow> bool \<Rightarrow> nat \<Rightarrow> string" where
  "print_row os row color n =
     (let modifier = (if color then get_color os row else []);
          postfix = get_postfix os row
      in (modifier @ rjust n (str_int (i row))) @ '' '' @ path row @ '' '' @ postfix)"

text \<open>
  How a call ends: it returns, it leaves through \<^verbatim>\<open>sys.exit\<close>, or an exception escapes.
  A result is the lines written to standard output and the way the call ended.
\<close>

datatype ending = Returned | SysExit int | Raised exception

type_synonym outcome = "string list \<times> ending"

definition show_raw :: "platform \<Rightarrow> outcome" where
  "show_raw os =
     (case environ_PATH os of
        None \<Rightarrow> ([], Raised (KeyError ''PATH''))
      | Some s \<Rightarrow> ([s], Returned))"

text \<open>
  \<^verbatim>\<open>dumps(dict(total=t, invalid=e, duplicates=d))\<close> and \<^verbatim>\<open>dumps(paths, indent=2)\<close>.
\<close>

definition dumps_info :: "int \<Rightarrow> int \<Rightarrow> int \<Rightarrow> string" where
  \<open>dumps_info t e d =
     ''{"total": '' @ str_int t @ '', "invalid": '' @ str_int e
       @ '', "duplicates": '' @ str_int d @ ''}''\<close>

definition dumps_paths :: "platform \<Rightarrow> string list \<Rightarrow> string" where
  "dumps_paths os paths =
     (if paths = [] then ''[]''
      else ''['' @ [CHR 0x0A] @ ''  ''
           @ join ('','' @ [CHR 0x0A] @ ''  '') (map (json_str os) paths)
           @ [CHR 0x0A] @ '']'')"

definition show_stats :: "platform \<Rightarrow> bool \<Rightarrow> outcome" where
  "show_stats os json =
     (case populate os of
        Inl exn \<Rightarrow> ([], Raised exn)
      | Inr path_var \<Rightarrow>
          (let t = int (length path_var);
               rows = to_rows os path_var;
               e = sum_list [1. row \<leftarrow> rows, has_error os row];
               d = sum_list [1. row \<leftarrow> rows, count row > 1]
           in if json then ([dumps_info t e d], Returned)
              else ([str_int t @ '' '' @ ''directories in your PATH'',
                     str_int e @ '' '' @ (if e > 1 then ''do'' else ''does'') @ '' ''
                       @ ''not exist'',
                     str_int d @ '' '' @ (if d > 1 then ''duplicate'' @ ''s'' else [])],
                    Returned)))"

record options =
  raw :: bool
  count_flag :: bool
  sort_flag :: bool
  invalid :: bool
  purge_invalid :: bool
  duplicates :: bool
  purge_duplicates :: bool
  correct :: bool
  "includes" :: string
  excludes :: string
  bare :: bool
  color :: bool
  string_flag :: bool
  json :: bool

text \<open>\<^verbatim>\<open>f(); sys.exit(0)\<close>: the exit happens when \<^verbatim>\<open>f\<close> returns.\<close>

definition then_exit :: "outcome \<Rightarrow> outcome" where
  "then_exit r = (case r of (out, Returned) \<Rightarrow> (out, SysExit 0) | _ \<Rightarrow> r)"

definition "show" :: "platform \<Rightarrow> options \<Rightarrow> outcome" where
  "show os opts =
     (if raw opts then then_exit (show_raw os)
      else if count_flag opts then then_exit (show_stats os (json opts))
      else
        (case populate os of
           Inl exn \<Rightarrow> ([], Raised exn)
         | Inr path_var \<Rightarrow>
             (let rows = to_rows os path_var;
                  purge_duplicates' = (if correct opts then True else purge_duplicates opts);
                  purge_invalid' = (if correct opts then True else purge_invalid opts);
                  rows' = modify_rows os rows (sort_flag opts) (duplicates opts)
                            purge_duplicates' (invalid opts) purge_invalid'
                            (includes opts) (excludes opts);
                  paths = [path row. row \<leftarrow> rows']
              in if string_flag opts then ([join [pathsep os] paths], Returned)
                 else if json opts then ([dumps_paths os paths], Returned)
                 else
                   ([if bare opts
                     then (if color opts then get_color os row else []) @ path row
                     else print_row os row (color opts) (max_digits path_var).
                       row \<leftarrow> rows'],
                    Returned))))"

section \<open>The pipeline, stage by stage\<close>

text \<open>
  The right-hand sides of the seven rebindings of \<^verbatim>\<open>modify_rows\<close>, each under its own
  name, and the key on which \<^verbatim>\<open>Row.__hash__\<close>, \<^verbatim>\<open>no_duplicates\<close> and the two substring
  filters compare rows: the resolved path in lower case.
\<close>

definition canonical :: "platform \<Rightarrow> Row \<Rightarrow> string" where
  "canonical os r = lower os (realpath os (path r))"

definition sort_stage :: "platform \<Rightarrow> Row list \<Rightarrow> Row list" where
  "sort_stage os rows = sort_key (\<lambda>r. realpath os (path r)) rows"

definition duplicates_stage :: "Row list \<Rightarrow> Row list" where
  "duplicates_stage rows = [row \<leftarrow> rows. count row > 1]"

definition invalid_stage :: "platform \<Rightarrow> Row list \<Rightarrow> Row list" where
  "invalid_stage os rows = [row \<leftarrow> rows. has_error os row]"

definition purge_invalid_stage :: "platform \<Rightarrow> Row list \<Rightarrow> Row list" where
  "purge_invalid_stage os rows = [row \<leftarrow> rows. \<not> has_error os row]"

definition includes_stage :: "platform \<Rightarrow> string \<Rightarrow> Row list \<Rightarrow> Row list" where
  "includes_stage os s rows =
     [row \<leftarrow> rows. str_in (lower os s) (lower os (realpath os (path row)))]"

definition excludes_stage :: "platform \<Rightarrow> string \<Rightarrow> Row list \<Rightarrow> Row list" where
  "excludes_stage os s rows =
     [row \<leftarrow> rows. \<not> str_in (lower os s) (lower os (realpath os (path row)))]"

text \<open>A stage that was requested runs; one that was not hands its input on.\<close>

definition stage :: "bool \<Rightarrow> ('a \<Rightarrow> 'a) \<Rightarrow> 'a \<Rightarrow> 'a" where
  "stage requested f x = (if requested then f x else x)"

text \<open>
  The entries of a list that no earlier entry equals, in their order: what remains when
  every later occurrence of a value is dropped.
\<close>

definition first_occurrences :: "'a list \<Rightarrow> 'a list" where
  "first_occurrences xs = [xs ! k. k \<leftarrow> [0..<length xs], xs ! k \<notin> set (take k xs)]"

section \<open>Two small machines\<close>

text \<open>
  A POSIX machine, as far as the examples below need one.  \<open>posix_Path\<close> is the
  normalisation of \<^verbatim>\<open>str(PurePosixPath(p))\<close>: empty and \<^verbatim>\<open>.\<close> components go, the root
  stays (two leading separators stay two), the empty path is \<^verbatim>\<open>.\<close>.  \<open>posix_realpath\<close>
  makes a path absolute from the working directory, writes the root with one separator
  and follows a symbolic link when the whole path is one.  It does not resolve a \<^verbatim>\<open>..\<close>
  component or a link below the last component; the paths of the examples have neither.
  Names on this filesystem are case-sensitive.  \<open>ascii_lower\<close> is \<^verbatim>\<open>str.lower\<close> on ASCII
  text, and \<open>quoted\<close> is \<^verbatim>\<open>json.dumps\<close> on a string that needs no escape.
\<close>

definition posix_Path :: "string \<Rightarrow> string" where
  "posix_Path p =
     (let parts = [c \<leftarrow> split CHR ''/'' p. c \<noteq> [] \<and> c \<noteq> ''.''];
          root = (if prefix ''//'' p \<and> \<not> prefix ''///'' p then ''//''
                  else if prefix ''/'' p then ''/'' else [])
      in if root = [] \<and> parts = [] then ''.'' else root @ join ''/'' parts)"

definition posix_realpath :: "string \<Rightarrow> (string \<times> string) list \<Rightarrow> string \<Rightarrow> string" where
  "posix_realpath cwd links p =
     (let q = posix_Path p;
          a = (if prefix ''//'' q then tl q
               else if prefix ''/'' q then q
               else if q = ''.'' then cwd
               else cwd @ ''/'' @ q)
      in case map_of links a of None \<Rightarrow> a | Some target \<Rightarrow> target)"

definition lower_char :: "char \<Rightarrow> char" where
  "lower_char c =
     (let n = (of_char c :: nat) in if 65 \<le> n \<and> n \<le> 90 then char_of (n + 32) else c)"

definition ascii_lower :: "string \<Rightarrow> string" where
  "ascii_lower s = map lower_char s"

definition quoted :: "string \<Rightarrow> string" where
  \<open>quoted s = ''"'' @ s @ ''"''\<close>

definition posix :: "string option \<Rightarrow> (string \<times> string) list \<Rightarrow> string list \<Rightarrow> string list \<Rightarrow> platform" where
  "posix var links dirs files =
     \<lparr>environ_PATH = var,
      pathsep = CHR '':'',
      realpath = posix_realpath ''/home/user'' links,
      exists = (\<lambda>p. posix_realpath ''/home/user'' links p \<in> set (dirs @ files)),
      isdir = (\<lambda>p. posix_realpath ''/home/user'' links p \<in> set dirs),
      lower = ascii_lower,
      Path = posix_Path,
      json_str = quoted\<rparr>"

text \<open>
  The machine of the spec's scenario: \<^verbatim>\<open>/bin\<close> is a directory, \<^verbatim>\<open>/nonexistent\<close> does not
  exist, \<^verbatim>\<open>/etc/passwd\<close> is a file, and there is no symbolic link.
\<close>

definition plain :: "string option \<Rightarrow> platform" where
  "plain var =
     posix var [] [''/'', ''/bin'', ''/usr'', ''/usr/bin'', ''/etc'', ''/home'', ''/home/user'']
       [''/etc/passwd'']"

text \<open>
  A machine where \<^verbatim>\<open>/bin\<close> is a symbolic link to \<^verbatim>\<open>/usr/bin\<close>, as on a merged-usr Linux
  system, and \<^verbatim>\<open>/Bin\<close> is a directory of its own.
\<close>

definition merged_usr :: "string option \<Rightarrow> platform" where
  "merged_usr var =
     posix var [(''/bin'', ''/usr/bin'')]
       [''/'', ''/Bin'', ''/usr'', ''/usr/bin'', ''/home'', ''/home/user''] []"

text \<open>The default values of the options of \<^verbatim>\<open>show\<close>.\<close>

definition defaults :: options where
  "defaults =
     \<lparr>raw = False, count_flag = False, sort_flag = False, invalid = False,
      purge_invalid = False, duplicates = False, purge_duplicates = False, correct = False,
      includes = [], excludes = [], bare = False, color = True, string_flag = False,
      json = False\<rparr>"

section \<open>Facts about the row builder and \<^verbatim>\<open>unseen_before\<close>\<close>

lemma length_make_rows: "length (make_rows os ps) = length ps"
  by (simp add: make_rows_def)

lemma map_snd_enumerate_with: "map (\<lambda>x. f (snd x)) (enumerate n ps) = map f ps"
  by (induction ps arbitrary: n) simp_all

lemma map_fst_enumerate_with: "map (\<lambda>x. f (fst x)) (enumerate n ps) = map f [n..<n + length ps]"
proof -
  have "map (\<lambda>x. f (fst x)) (enumerate n ps) = map f (map fst (enumerate n ps))"
    unfolding map_map comp_def ..
  also have "\<dots> = map f [n..<n + length ps]"
    unfolding map_fst_enumerate ..
  finally show ?thesis .
qed

lemma map_path_make_rows: "map path (make_rows os ps) = map (Path os) ps"
  by (simp add: make_rows_def Let_def comp_def case_prod_unfold map_snd_enumerate_with)

lemma map_i_make_rows: "map i (make_rows os ps) = map int [0..<length ps]"
  by (simp add: make_rows_def Let_def comp_def case_prod_unfold map_fst_enumerate_with)

lemma map_count_make_rows:
  "map count (make_rows os ps) = map (\<lambda>p. int (count_list (map (realpath os) ps) (realpath os p))) ps"
  using map_snd_enumerate_with [of "\<lambda>p. int (count_list (map (realpath os) ps) (realpath os p))" 0 ps]
  by (simp add: make_rows_def Let_def comp_def case_prod_unfold Counter_def)

lemma unseen_loop_first:
  "unseen_loop seen xs = [xs ! k. k \<leftarrow> [0..<length xs], xs ! k \<notin> seen \<union> set (take k xs)]"
proof (induction xs arbitrary: seen)
  case Nil
  then show ?case by simp
next
  case (Cons x xs)
  have "[0..<Suc (length xs)] = 0 # [Suc 0..<Suc (length xs)]"
    by (rule upt_conv_Cons) simp
  also have "[Suc 0..<Suc (length xs)] = map Suc [0..<length xs]"
    by (rule map_Suc_upt [symmetric])
  finally have upt: "[0..<length (x # xs)] = 0 # map Suc [0..<length xs]"
    by simp
  have rhs: "[(x # xs) ! k. k \<leftarrow> [0..<length (x # xs)], (x # xs) ! k \<notin> seen \<union> set (take k (x # xs))]
      = (if x \<in> seen then [] else [x])
        @ [xs ! k. k \<leftarrow> [0..<length xs], xs ! k \<notin> insert x seen \<union> set (take k xs)]"
    unfolding upt by (simp add: comp_def conj_ac cong: if_cong)
  show ?case
  proof (cases "x \<in> seen")
    case True
    then have "insert x seen = seen" by (rule insert_absorb)
    with True show ?thesis
      unfolding rhs by (simp add: Cons.IH [of seen])
  next
    case False
    then have "unseen_loop seen (x # xs) = x # unseen_loop (insert x seen) xs"
      by simp
    also have "\<dots> = (if x \<in> seen then [] else [x])
        @ [xs ! k. k \<leftarrow> [0..<length xs], xs ! k \<notin> insert x seen \<union> set (take k xs)]"
      using False by (simp only: Cons.IH [of "insert x seen"] if_False append.simps)
    finally show ?thesis
      unfolding rhs .
  qed
qed

lemma unseen_before_first: "unseen_before xs = first_occurrences xs"
  by (simp add: unseen_before_def first_occurrences_def unseen_loop_first)

lemma set_unseen_loop: "set (unseen_loop seen xs) = set xs - seen"
  by (induction xs arbitrary: seen) auto

lemma distinct_unseen_loop: "distinct (unseen_loop seen xs)"
  by (induction xs arbitrary: seen) (auto simp: set_unseen_loop)

lemma unseen_loop_distinct_id: "distinct xs \<Longrightarrow> set xs \<inter> seen = {} \<Longrightarrow> unseen_loop seen xs = xs"
  by (induction xs arbitrary: seen) auto

lemma unseen_before_distinct_id: "distinct xs \<Longrightarrow> unseen_before xs = xs"
  by (simp add: unseen_before_def unseen_loop_distinct_id)

lemma distinct_unseen_before: "distinct (unseen_before xs)"
  by (simp add: unseen_before_def distinct_unseen_loop)

lemma set_unseen_before: "set (unseen_before xs) = set xs"
  by (simp add: unseen_before_def set_unseen_loop)

lemma subseq_stage_filter: "subseq xs ys \<Longrightarrow> subseq (if b then filter P xs else xs) ys"
  using subseq_order.order_trans [OF subseq_filter_left] by auto


section \<open>The claims\<close>

text \<open>
  C5. For every source list and every setting of the other options, \<^verbatim>\<open>show\<close> with
  \<^verbatim>\<open>correct\<close> set produces the same output, and ends the same way, as \<^verbatim>\<open>show\<close> with
  \<^verbatim>\<open>correct\<close> unset and both \<^verbatim>\<open>purge_duplicates\<close> and \<^verbatim>\<open>purge_invalid\<close> set.
\<close>

theorem correct_is_both_purges:
  "show os (opts\<lparr>correct := True\<rparr>) =
   show os (opts\<lparr>correct := False, purge_duplicates := True, purge_invalid := True\<rparr>)"
  by (simp add: show_def Let_def split: sum.split)

text \<open>
  C6. Whatever stages are requested, \<^verbatim>\<open>modify_rows\<close> is the composition, in this order, of
  sort, duplicates-only, purge-duplicates, invalid-only, purge-invalid, the includes filter
  and the excludes filter, where a stage that was not requested hands its input on
  unchanged; with no stage requested the rows come back as they went in.
\<close>

theorem modify_rows_stage_order:
  "modify_rows os rows srt dup pdup inval pinval inc exc =
     stage (exc \<noteq> []) (excludes_stage os exc)
      (stage (inc \<noteq> []) (includes_stage os inc)
        (stage pinval (purge_invalid_stage os)
          (stage inval (invalid_stage os)
            (stage pdup (no_duplicates os)
              (stage dup duplicates_stage
                (stage srt (sort_stage os) rows))))))
   \<and> modify_rows os rows False False False False False [] [] = rows"
  by (simp add: modify_rows_def stage_def excludes_stage_def includes_stage_def
      purge_invalid_stage_def invalid_stage_def duplicates_stage_def sort_stage_def Let_def)

text \<open>
  C10. With sorting and purge-duplicates off, the rows that \<^verbatim>\<open>modify_rows\<close> returns are a
  subsequence of the rows it was given, for any choice of the duplicates-only,
  invalid-only, purge-invalid, includes and excludes stages (each alone, or several
  together): every row of the output is a row of the input, unchanged, and the rows that
  survive keep their relative order.
\<close>

theorem filter_stages_subseq:
  "subseq (modify_rows os rows False dup False inval pinval inc exc) rows"
  unfolding modify_rows_def Let_def if_False
  by (intro subseq_stage_filter subseq_order.order_refl)

text \<open>
  C1. The row builder returns one row per entry, in order, but numbers the rows from 0:
  for \<^verbatim>\<open>PATH=/bin:/bin:/nonexistent\<close> the keys of \<^verbatim>\<open>PathVar\<close> are 1, 2, 3 and the indices
  of the rows are 0, 1, 2, so no row carries the 1-based position of its entry.
\<close>

theorem to_rows_numbers_from_zero:
  "populate (plain (Some ''/bin:/bin:/nonexistent''))
     = Inr [(1, ''/bin''), (2, ''/bin''), (3, ''/nonexistent'')]
   \<and> map i (to_rows (plain (Some ''/bin:/bin:/nonexistent''))
              [(1, ''/bin''), (2, ''/bin''), (3, ''/nonexistent'')]) = [0, 1, 2]
   \<and> map path (to_rows (plain (Some ''/bin:/bin:/nonexistent''))
              [(1, ''/bin''), (2, ''/bin''), (3, ''/nonexistent'')])
       = [''/bin'', ''/bin'', ''/nonexistent'']"
  by code_simp

text \<open>
  C2. The row builder counts equal resolved paths without folding case: for
  \<^verbatim>\<open>PATH=/usr/bin:/USR/BIN\<close> the two rows have the same canonical form \<^verbatim>\<open>/usr/bin\<close>
  (resolved, lower case), and each has \<^verbatim>\<open>count\<close> 1; the purge-duplicates stage, which
  does fold case, merges the two.
\<close>

theorem duplicate_count_is_case_sensitive:
  "populate (plain (Some ''/usr/bin:/USR/BIN'')) = Inr [(1, ''/usr/bin''), (2, ''/USR/BIN'')]
   \<and> to_rows (plain (Some ''/usr/bin:/USR/BIN'')) [(1, ''/usr/bin''), (2, ''/USR/BIN'')]
       = [\<lparr>i = 0, path = ''/usr/bin'', count = 1\<rparr>, \<lparr>i = 1, path = ''/USR/BIN'', count = 1\<rparr>]
   \<and> canonical (plain (Some ''/usr/bin:/USR/BIN'')) \<lparr>i = 0, path = ''/usr/bin'', count = 1\<rparr>
       = ''/usr/bin''
   \<and> canonical (plain (Some ''/usr/bin:/USR/BIN'')) \<lparr>i = 1, path = ''/USR/BIN'', count = 1\<rparr>
       = ''/usr/bin''
   \<and> no_duplicates (plain (Some ''/usr/bin:/USR/BIN''))
        [\<lparr>i = 0, path = ''/usr/bin'', count = 1\<rparr>, \<lparr>i = 1, path = ''/USR/BIN'', count = 1\<rparr>]
       = [\<lparr>i = 0, path = ''/usr/bin'', count = 1\<rparr>]"
  by code_simp

text \<open>
  C3. On the rows of \<^verbatim>\<open>/bin\<close>, \<^verbatim>\<open>/bin\<close>, \<^verbatim>\<open>/nonexistent\<close> the purge-duplicates stage
  keeps the first row of each canonical path, but it hands back rows built anew from the
  canonical strings: the row of \<^verbatim>\<open>/bin\<close> has \<^verbatim>\<open>count\<close> 1, not the 2 counted upfront, and
  the row of \<^verbatim>\<open>/nonexistent\<close> has the index after that of \<^verbatim>\<open>/bin\<close>, not the index of
  the third entry.  The includes filter, on the same rows, keeps the row of
  \<^verbatim>\<open>/nonexistent\<close> with the index it had.
\<close>

theorem purge_duplicates_renumbers_and_recounts:
  "to_rows (plain None) [(1, ''/bin''), (2, ''/bin''), (3, ''/nonexistent'')]
     = [\<lparr>i = 0, path = ''/bin'', count = 2\<rparr>, \<lparr>i = 1, path = ''/bin'', count = 2\<rparr>,
        \<lparr>i = 2, path = ''/nonexistent'', count = 1\<rparr>]
   \<and> no_duplicates (plain None)
        [\<lparr>i = 0, path = ''/bin'', count = 2\<rparr>, \<lparr>i = 1, path = ''/bin'', count = 2\<rparr>,
         \<lparr>i = 2, path = ''/nonexistent'', count = 1\<rparr>]
     = [\<lparr>i = 0, path = ''/bin'', count = 1\<rparr>, \<lparr>i = 1, path = ''/nonexistent'', count = 1\<rparr>]
   \<and> show (plain (Some ''/bin:/bin:/nonexistent''))
        (defaults\<lparr>purge_duplicates := True, color := False\<rparr>)
     = ([''0 /bin '', ''1 /nonexistent (directory does not exist)''], Returned)
   \<and> show (plain (Some ''/bin:/bin:/nonexistent''))
        (defaults\<lparr>includes := ''non'', color := False\<rparr>)
     = ([''2 /nonexistent (directory does not exist)''], Returned)"
  by code_simp



text \<open>
  C7. For a row whose path exists and is not a directory, \<^verbatim>\<open>Row.error\<close> is the class
  \<^verbatim>\<open>NotADirectoryError\<close>, and the annotation is empty: \<^verbatim>\<open>get_postfix\<close> compares the class
  with an instance, so \<^verbatim>\<open>not a directory\<close> is never written.
\<close>

theorem not_a_directory_never_annotated:
  "error (plain None) \<lparr>i = 0, path = ''/etc/passwd'', count = 1\<rparr> = Class NotADirectoryError
   \<and> get_postfix (plain None) \<lparr>i = 0, path = ''/etc/passwd'', count = 1\<rparr> = []
   \<and> get_postfix (plain None) \<lparr>i = 0, path = ''/etc/passwd'', count = 2\<rparr> = ''(duplicates: 2)''
   \<and> get_postfix (plain None) \<lparr>i = 0, path = ''/nonexistent'', count = 1\<rparr>
       = ''(directory does not exist)''"
  by code_simp

text \<open>
  C8, as stated, fails for an empty variable: with \<^verbatim>\<open>PATH\<close> set to the empty string the
  default operation writes the row of one entry, the empty path shown as \<^verbatim>\<open>.\<close>, and
  returns; the raw operation writes an empty line and the count operation writes the
  statistics of one entry, both leaving through \<^verbatim>\<open>sys.exit(0)\<close>.
\<close>

theorem empty_PATH_is_not_fatal:
  \<open>show (plain (Some [])) defaults = ([Fore_GREEN @ ''0 . ''], Returned)
   \<and> show (plain (Some [])) (defaults\<lparr>raw := True\<rparr>) = ([[]], SysExit 0)
   \<and> show (plain (Some [])) (defaults\<lparr>count_flag := True, json := True\<rparr>)
      = ([''{"total": 1, "invalid": 0, "duplicates": 0}''], SysExit 0)\<close>
  by code_simp

text \<open>
  C8, amended. If the source environment variable is absent, the operation, for every
  setting of the options and so on the raw and count paths too, ends with the uncaught
  \<^verbatim>\<open>KeyError\<close> of the lookup before any row is built, and writes nothing.
\<close>

theorem missing_PATH_is_fatal:
  "environ_PATH os = None \<Longrightarrow> show os opts = ([], Raised (KeyError ''PATH''))"
  by (simp add: show_def show_raw_def show_stats_def populate_def then_exit_def)

text \<open>C8, amended, on the machine \<open>plain None\<close>: the default, raw and count operations.\<close>

theorem missing_PATH_is_fatal_witness:
  "environ_PATH (plain None) = None
   \<and> show (plain None) defaults = ([], Raised (KeyError ''PATH''))
   \<and> show (plain None) (defaults\<lparr>raw := True\<rparr>) = ([], Raised (KeyError ''PATH''))
   \<and> show (plain None) (defaults\<lparr>count_flag := True\<rparr>) = ([], Raised (KeyError ''PATH''))"
proof -
  have absent: "environ_PATH (plain None) = None"
    by (simp add: plain_def posix_def)
  show ?thesis
    using absent missing_PATH_is_fatal [OF absent, of defaults]
      missing_PATH_is_fatal [OF absent, of "defaults\<lparr>raw := True\<rparr>"]
      missing_PATH_is_fatal [OF absent, of "defaults\<lparr>count_flag := True\<rparr>"]
    by simp
qed

text \<open>
  C9. On the machine with the directory \<^verbatim>\<open>/Bin\<close> and the link \<^verbatim>\<open>/bin\<close> to \<^verbatim>\<open>/usr/bin\<close>,
  the purge-duplicates stage applied twice does not give what it gives applied once: it
  puts the lower-case canonical string in the place of the path, so the row of \<^verbatim>\<open>/Bin\<close>
  becomes \<^verbatim>\<open>/bin\<close>, another directory, after one purge and \<^verbatim>\<open>/usr/bin\<close> after two.
  With \<^verbatim>\<open>PATH=/Bin\<close> the string written as new content of \<^verbatim>\<open>PATH\<close> is \<^verbatim>\<open>/bin\<close>.
\<close>

theorem purge_twice_differs_across_symlink:
  "no_duplicates (merged_usr None) [\<lparr>i = 0, path = ''/Bin'', count = 1\<rparr>]
     = [\<lparr>i = 0, path = ''/bin'', count = 1\<rparr>]
   \<and> no_duplicates (merged_usr None)
        (no_duplicates (merged_usr None) [\<lparr>i = 0, path = ''/Bin'', count = 1\<rparr>])
     = [\<lparr>i = 0, path = ''/usr/bin'', count = 1\<rparr>]
   \<and> no_duplicates (merged_usr None)
        (no_duplicates (merged_usr None) [\<lparr>i = 0, path = ''/Bin'', count = 1\<rparr>])
     \<noteq> no_duplicates (merged_usr None) [\<lparr>i = 0, path = ''/Bin'', count = 1\<rparr>]
   \<and> to_rows (merged_usr (Some ''/Bin'')) [(1, ''/Bin'')] = [\<lparr>i = 0, path = ''/Bin'', count = 1\<rparr>]
   \<and> show (merged_usr (Some ''/Bin'')) (defaults\<lparr>purge_duplicates := True, string_flag := True\<rparr>)
     = ([''/bin''], Returned)"
  by code_simp

end
